theory Spec2Isabelle
  imports Complex_Main "HOL-Library.Sublist"
begin

section \<open>Values and exceptions of the interpreter\<close>

text \<open>
  \<^verbatim>\<open>quizapp.py\<close> keeps whatever \<^verbatim>\<open>json.loads\<close> returned and reads it with
  subscripts, \<^verbatim>\<open>.get\<close>, \<^verbatim>\<open>.items()\<close>, \<^verbatim>\<open>enumerate\<close> and \<^verbatim>\<open>len\<close>; it never checks a
  type. The model therefore keeps the decoded document as a value of the seven
  Python types \<^verbatim>\<open>json.loads\<close> produces, and every operation answers as the
  interpreter does on each of them. A \<open>JDict\<close> lists the items of a dict in
  insertion order (the keys of a dict are distinct; a lookup reads the first item
  with the key). A \<open>string\<close> lists the characters of a \<^verbatim>\<open>str\<close>. A \<open>JFloat\<close> carries
  the value of a finite double; no operation of the program reads a number.
\<close>

datatype json =
    JNull
  | JBool bool
  | JInt int
  | JFloat real
  | JStr string
  | JList "json list"
  | JDict "(string \<times> json) list"

datatype py_error =
    AttributeError
  | TypeError
  | KeyError
  | ZeroDivisionError
  | ExternalError

text \<open>\<^verbatim>\<open>x.get(key, default)\<close>: only a dict has the method.\<close>

fun dict_get :: "json \<Rightarrow> string \<Rightarrow> json \<Rightarrow> py_error + json" where
  "dict_get (JDict kvs) key dflt =
     Inr (case map_of kvs key of None \<Rightarrow> dflt | Some v \<Rightarrow> v)"
| "dict_get JNull key dflt = Inl AttributeError"
| "dict_get (JBool b) key dflt = Inl AttributeError"
| "dict_get (JInt n) key dflt = Inl AttributeError"
| "dict_get (JFloat r) key dflt = Inl AttributeError"
| "dict_get (JStr s) key dflt = Inl AttributeError"
| "dict_get (JList xs) key dflt = Inl AttributeError"

text \<open>\<^verbatim>\<open>x[key]\<close> with a \<^verbatim>\<open>str\<close> key: a dict looks the key up, every other type
  refuses the subscript.\<close>

fun subscript :: "json \<Rightarrow> string \<Rightarrow> py_error + json" where
  "subscript (JDict kvs) key =
     (case map_of kvs key of None \<Rightarrow> Inl KeyError | Some v \<Rightarrow> Inr v)"
| "subscript JNull key = Inl TypeError"
| "subscript (JBool b) key = Inl TypeError"
| "subscript (JInt n) key = Inl TypeError"
| "subscript (JFloat r) key = Inl TypeError"
| "subscript (JStr s) key = Inl TypeError"
| "subscript (JList xs) key = Inl TypeError"

text \<open>\<^verbatim>\<open>x.items()\<close>.\<close>

fun items :: "json \<Rightarrow> py_error + (string \<times> json) list" where
  "items (JDict kvs) = Inr kvs"
| "items JNull = Inl AttributeError"
| "items (JBool b) = Inl AttributeError"
| "items (JInt n) = Inl AttributeError"
| "items (JFloat r) = Inl AttributeError"
| "items (JStr s) = Inl AttributeError"
| "items (JList xs) = Inl AttributeError"

text \<open>What \<^verbatim>\<open>enumerate(x)\<close> walks: the elements of a list, the keys of a dict, the
  characters of a string; nothing else is iterable. \<^verbatim>\<open>len(x)\<close> is defined on the
  same three types and is the number of elements walked.\<close>

fun iterate :: "json \<Rightarrow> py_error + json list" where
  "iterate (JList xs) = Inr xs"
| "iterate (JDict kvs) = Inr (map (\<lambda>kv. JStr (fst kv)) kvs)"
| "iterate (JStr s) = Inr (map (\<lambda>c. JStr [c]) s)"
| "iterate JNull = Inl TypeError"
| "iterate (JBool b) = Inl TypeError"
| "iterate (JInt n) = Inl TypeError"
| "iterate (JFloat r) = Inl TypeError"

fun len :: "json \<Rightarrow> py_error + nat" where
  "len (JList xs) = Inr (length xs)"
| "len (JDict kvs) = Inr (length kvs)"
| "len (JStr s) = Inr (length s)"
| "len JNull = Inl TypeError"
| "len (JBool b) = Inl TypeError"
| "len (JInt n) = Inl TypeError"
| "len (JFloat r) = Inl TypeError"

text \<open>\<^verbatim>\<open>str(n)\<close> of an \<^verbatim>\<open>int\<close>: the decimal digits, after a minus sign when negative.\<close>

definition digit :: "nat \<Rightarrow> char" where
  "digit d = char_of (48 + d)"

fun str_nat :: "nat \<Rightarrow> string" where
  "str_nat n = (if n < 10 then [digit n] else str_nat (n div 10) @ [digit (n mod 10)])"

declare str_nat.simps [simp del]

definition str_int :: "int \<Rightarrow> string" where
  "str_int n = (if n < 0 then CHR ''-'' # str_nat (nat (- n)) else str_nat (nat n))"

section \<open>fetch_questions\<close>

text \<open>\<^verbatim>\<open>json.dumps(RESPONSE_JSON, indent=2)\<close>: the argument is a constant of the
  function, so the text is a constant too.\<close>

definition RESPONSE_JSON_dumps :: string where
  \<open>RESPONSE_JSON_dumps =
     ''{\<newline>'' @
     ''  "mcqs": [\<newline>'' @
     ''    {\<newline>'' @
     ''      "mcq": "Sample question",\<newline>'' @
     ''      "options": {\<newline>'' @
     ''        "a": "Option 1",\<newline>'' @
     ''        "b": "Option 2",\<newline>'' @
     ''        "c": "Option 3",\<newline>'' @
     ''        "d": "Option 4"\<newline>'' @
     ''      },\<newline>'' @
     ''      "correct": "a"\<newline>'' @
     ''    }\<newline>'' @
     ''  ]\<newline>'' @
     ''}''\<close>

text \<open>The f-string of lines 61 to 69, with its three interpolated arguments and
  the dumped example.\<close>

definition PROMPT_TEMPLATE :: "string \<Rightarrow> string \<Rightarrow> int \<Rightarrow> string" where
  "PROMPT_TEMPLATE text_content quiz_level num_questions =
     ''\<newline>    You are an expert in generating MCQ quizzes based on provided content.\<newline>'' @
     ''    Given the text below, generate a quiz with '' @ str_int num_questions @
     '' multiple-choice questions at the '' @ [CHR 0x27] @ quiz_level @ [CHR 0x27] @
     '' difficulty level.\<newline>'' @
     ''\<newline>'' @
     ''    Text: '' @ text_content @ ''\<newline>'' @
     ''\<newline>'' @
     ''    The format should strictly match this JSON:\<newline>'' @
     ''    '' @ RESPONSE_JSON_dumps @ ''\<newline>'' @
     ''    ''"

text \<open>
  The two library calls of the function are parameters of the model:
  \<open>generate_content lib prompt\<close> is \<^verbatim>\<open>model.generate_content(prompt).text\<close>, the
  returned text or the exception of the call; \<open>json_loads lib text\<close> is
  \<^verbatim>\<open>json.loads(text)\<close>, with \<open>None\<close> for \<^verbatim>\<open>json.JSONDecodeError\<close>. \<open>binary64\<close> is the
  rounding of a real number to a double, which the interpreter applies after each
  float operation of the score. Every theorem holds for all three.
\<close>

record library =
  generate_content :: "string \<Rightarrow> py_error + string"
  json_loads :: "string \<Rightarrow> json option"
  binary64 :: "real \<Rightarrow> real"

text \<open>The \<^verbatim>\<open>try\<close> block of lines 73 to 77, on the outcome of \<^verbatim>\<open>json.loads\<close>: the
  handler catches the decoder's exception only, so what \<^verbatim>\<open>.get\<close> raises leaves the
  function.\<close>

definition extract_mcqs :: "json option \<Rightarrow> py_error + json" where
  "extract_mcqs loaded =
     (case loaded of
        None \<Rightarrow> Inr (JList [])
      | Some extracted_response \<Rightarrow> dict_get extracted_response ''mcqs'' (JList []))"

text \<open>The memoisation of \<^verbatim>\<open>@st.cache_data\<close> is not modelled: the library is a
  function here, so a repeated call returns what the first one did.\<close>

definition fetch_questions :: "library \<Rightarrow> string \<Rightarrow> string \<Rightarrow> int \<Rightarrow> py_error + json" where
  "fetch_questions lib text_content quiz_level num_questions =
     (case generate_content lib (PROMPT_TEMPLATE text_content quiz_level num_questions) of
        Inl e \<Rightarrow> Inl e
      | Inr response_text \<Rightarrow> extract_mcqs (json_loads lib response_text))"

section \<open>The session and one run of main\<close>

text \<open>
  \<^verbatim>\<open>st.session_state\<close> holds three entries of the program; each is absent until it
  is first assigned (\<open>None\<close>). Whatever else the session holds (the values of the
  widgets) is the \<open>more\<close> part of the record, which the program never writes.
\<close>

record session_state =
  questions :: "json option"
  quiz_generated :: "bool option"
  selected_options :: "(nat \<rightharpoonup> string) option"

text \<open>
  What the widgets return in one run of the script: the three inputs, the three
  buttons, and \<open>radio i\<close>, the value of \<^verbatim>\<open>st.radio\<close> for question \<open>i\<close> (\<open>None\<close> while
  nothing is chosen). The widget returns one of the options it was given; the
  model lets it return any string, so a property of all runs of the model holds
  of all runs of the program. Calls that only draw on the page are left out.
\<close>

record widgets =
  text_content :: string
  quiz_level :: string
  num_questions :: int
  generate_clicked :: bool
  radio :: "nat \<Rightarrow> string option"
  submitted :: bool
  reset_clicked :: bool

text \<open>The form, lines 121 to 135. A question that cannot be read stops the run
  with the selections stored so far.\<close>

fun render_form ::
  "(nat \<Rightarrow> string option) \<Rightarrow> nat \<Rightarrow> json list \<Rightarrow> (nat \<rightharpoonup> string) \<Rightarrow>
     py_error option \<times> (nat \<rightharpoonup> string)" where
  "render_form rd i [] sel = (None, sel)"
| "render_form rd i (question # rest) sel =
     (case subscript question ''mcq'' of
        Inl e \<Rightarrow> (Some e, sel)
      | Inr mcq \<Rightarrow>
     (case subscript question ''options'' of
        Inl e \<Rightarrow> (Some e, sel)
      | Inr opts \<Rightarrow>
     (case items opts of
        Inl e \<Rightarrow> (Some e, sel)
      | Inr formatted_options \<Rightarrow>
          render_form rd (Suc i) rest
            (case rd i of
               None \<Rightarrow> sel
             | Some selected_option \<Rightarrow>
                 if selected_option = [] then sel
                 else sel(i \<mapsto> takeWhile (\<lambda>c. c \<noteq> CHR '':'') selected_option)))))"

text \<open>
  The results of one question, lines 146 to 159: the line about the selection
  (\<open>None\<close> stands for \<^verbatim>\<open>You didn't select an answer.\<close>), the line about the correct
  answer, and whether the question adds a mark.
\<close>

record report =
  selected_line :: "(string \<times> json) option"
  correct_line :: "string \<times> json"

text \<open>\<^verbatim>\<open>selected_letter == correct_letter\<close>, between the result of \<^verbatim>\<open>.get(i)\<close> and a
  decoded value.\<close>

fun equal_letter :: "string option \<Rightarrow> json \<Rightarrow> bool" where
  "equal_letter (Some s) (JStr c) = (s = c)"
| "equal_letter None JNull = True"
| "equal_letter selected correct = False"

definition score_question :: "json \<Rightarrow> string option \<Rightarrow> py_error + bool \<times> report" where
  "score_question question selected_letter =
     (case subscript question ''mcq'' of
        Inl e \<Rightarrow> Inl e
      | Inr mcq \<Rightarrow>
     (case subscript question ''correct'' of
        Inl e \<Rightarrow> Inl e
      | Inr correct_letter \<Rightarrow>
     (case (case selected_letter of
              None \<Rightarrow> Inr None
            | Some s \<Rightarrow>
                if s = [] then Inr None
                else (case subscript question ''options'' of
                        Inl e \<Rightarrow> Inl e
                      | Inr opts \<Rightarrow>
                          (case subscript opts s of
                             Inl e \<Rightarrow> Inl e
                           | Inr v \<Rightarrow> Inr (Some (s, v))))) of
        Inl e \<Rightarrow> Inl e
      | Inr line \<Rightarrow>
     (case correct_letter of
        JStr c \<Rightarrow>
          (case subscript question ''options'' of
             Inl e \<Rightarrow> Inl e
           | Inr opts \<Rightarrow>
               (case subscript opts c of
                  Inl e \<Rightarrow> Inl e
                | Inr v \<Rightarrow>
                    Inr (equal_letter selected_letter correct_letter,
                         \<lparr>selected_line = line, correct_line = (c, v)\<rparr>)))
      | _ \<Rightarrow> Inl AttributeError))))"

text \<open>The loop of lines 145 to 159 over the enumerated questions.\<close>

fun score_loop ::
  "(nat \<rightharpoonup> string) \<Rightarrow> nat \<Rightarrow> json list \<Rightarrow> nat \<Rightarrow> report list \<Rightarrow>
     py_error + nat \<times> report list" where
  "score_loop sel i [] marks out = Inr (marks, out)"
| "score_loop sel i (question # rest) marks out =
     (case score_question question (sel i) of
        Inl e \<Rightarrow> Inl e
      | Inr (counted, r) \<Rightarrow>
          score_loop sel (Suc i) rest (if counted then marks + 1 else marks) (out @ [r]))"

text \<open>Line 162: true division of two ints raises on a zero divisor; the quotient
  and the product are each rounded to a double.\<close>

definition score_percentage :: "(real \<Rightarrow> real) \<Rightarrow> nat \<Rightarrow> nat \<Rightarrow> py_error + real" where
  "score_percentage fl marks n =
     (if n = 0 then Inl ZeroDivisionError
      else Inr (fl (fl (real marks / real n) * 100)))"

text \<open>Lines 170 to 177. The percentage is a finite double, which compares with
  the integers 100, 80 and 50 as its real value does.\<close>

datatype feedback = Perfect_Score | Great_job | Good_effort | Dont_worry

definition performance_feedback :: "real \<Rightarrow> feedback" where
  "performance_feedback percentage =
     (if percentage = 100 then Perfect_Score
      else if percentage \<ge> 80 then Great_job
      else if percentage \<ge> 50 then Good_effort
      else Dont_worry)"

record results =
  marks_shown :: nat
  total_shown :: nat
  percentage_shown :: real
  reports :: "report list"
  feedback_shown :: feedback

text \<open>Lines 140 to 177, run when the form was submitted.\<close>

definition show_results ::
  "(real \<Rightarrow> real) \<Rightarrow> json \<Rightarrow> (nat \<rightharpoonup> string) \<Rightarrow> py_error + results" where
  "show_results fl stored sel =
     (case iterate stored of
        Inl e \<Rightarrow> Inl e
      | Inr qs \<Rightarrow>
     (case score_loop sel 0 qs 0 [] of
        Inl e \<Rightarrow> Inl e
      | Inr (marks, out) \<Rightarrow>
     (case len stored of
        Inl e \<Rightarrow> Inl e
      | Inr n \<Rightarrow>
     (case score_percentage fl marks n of
        Inl e \<Rightarrow> Inl e
      | Inr p \<Rightarrow>
          Inr \<lparr>marks_shown = marks, total_shown = n, percentage_shown = p,
               reports = out, feedback_shown = performance_feedback p\<rparr>))))"

text \<open>
  How a run of the script ends: an exception leaves it, \<^verbatim>\<open>st.rerun()\<close> stops it and
  asks for the next run, or it reaches its end, with the results when it showed
  them.
\<close>

datatype outcome = Raised py_error | Rerun | Finished "results option"

text \<open>Lines 101 to 104: an entry that is absent gets its default; \<open>generated\<close> and
  \<open>selections\<close> are what the rest of the run reads.\<close>

definition generated :: "'a session_state_scheme \<Rightarrow> bool" where
  "generated s = (case quiz_generated s of None \<Rightarrow> False | Some b \<Rightarrow> b)"

definition selections :: "'a session_state_scheme \<Rightarrow> (nat \<rightharpoonup> string)" where
  "selections s = (case selected_options s of None \<Rightarrow> Map.empty | Some m \<Rightarrow> m)"

definition with_defaults :: "'a session_state_scheme \<Rightarrow> 'a session_state_scheme" where
  "with_defaults s =
     s\<lparr>quiz_generated := Some (generated s), selected_options := Some (selections s)\<rparr>"

text \<open>
  Lines 114 to 183, the page of a generated quiz: the form, the results when it
  was submitted, the reset button. A write to the session stays when a later
  statement raises, so the selections of the form are kept on every path after it.
\<close>

definition quiz_page ::
  "library \<Rightarrow> widgets \<Rightarrow> 'a session_state_scheme \<Rightarrow> outcome \<times> 'a session_state_scheme" where
  "quiz_page lib w s =
     (case questions s of
        None \<Rightarrow> (Raised AttributeError, s)
      | Some stored \<Rightarrow>
     (case iterate stored of
        Inl e \<Rightarrow> (Raised e, s)
      | Inr qs \<Rightarrow>
          (let rendered = render_form (radio w) 0 qs (selections s);
               s1 = s\<lparr>selected_options := Some (snd rendered)\<rparr>
           in
           case fst rendered of
             Some e \<Rightarrow> (Raised e, s1)
           | None \<Rightarrow>
          (case (if submitted w
                 then map_sum id Some (show_results (binary64 lib) stored (snd rendered))
                 else Inr None) of
             Inl e \<Rightarrow> (Raised e, s1)
           | Inr shown \<Rightarrow>
               if reset_clicked w
               then (Rerun, s1\<lparr>quiz_generated := Some False,
                               selected_options := Some Map.empty\<rparr>)
               else (Finished shown, s1)))))"

text \<open>One run of \<^verbatim>\<open>main\<close> on the session it finds, lines 100 to 183.\<close>

definition main ::
  "library \<Rightarrow> widgets \<Rightarrow> 'a session_state_scheme \<Rightarrow> outcome \<times> 'a session_state_scheme" where
  "main lib w s0 =
     (let s = with_defaults s0 in
      if generate_clicked w then
        (case fetch_questions lib (text_content w) (quiz_level w) (num_questions w) of
           Inl e \<Rightarrow> (Raised e, s)
         | Inr fetched \<Rightarrow>
             (Rerun, s\<lparr>questions := Some fetched, quiz_generated := Some True,
                       selected_options := Some Map.empty\<rparr>))
      else if generated s then quiz_page lib w s
      else (Finished None, s))"

text \<open>The sessions the program can be in: a new session has no entry, and every
  run of the script, whatever the widgets and the library return, leads to the
  next.\<close>

definition new_session :: session_state where
  "new_session = \<lparr>questions = None, quiz_generated = None, selected_options = None\<rparr>"

inductive reachable :: "session_state \<Rightarrow> bool" where
  start: "reachable new_session"
| run: "reachable s \<Longrightarrow> reachable (snd (main lib w s))"

section \<open>What the specification says of a session\<close>

text \<open>The questions a session holds are the elements a run enumerates.\<close>

definition stored_questions :: "'a session_state_scheme \<Rightarrow> json list" where
  "stored_questions s =
     (case questions s of
        None \<Rightarrow> []
      | Some stored \<Rightarrow> (case iterate stored of Inl e \<Rightarrow> [] | Inr qs \<Rightarrow> qs))"

text \<open>The two halves of the invariant of the data model: every key of the
  selections is an index of a stored question, and the \<^verbatim>\<open>correct\<close> entry of every
  stored question is a string that is a key of its \<^verbatim>\<open>options\<close>.\<close>

definition selections_in_range :: "'a session_state_scheme \<Rightarrow> bool" where
  "selections_in_range s = (dom (selections s) \<subseteq> {i. i < length (stored_questions s)})"

definition correct_in_options :: "json \<Rightarrow> bool" where
  "correct_in_options question =
     (case subscript question ''correct'' of
        Inr (JStr c) \<Rightarrow>
          (case subscript question ''options'' of
             Inr opts \<Rightarrow> (case subscript opts c of Inr v \<Rightarrow> True | Inl e \<Rightarrow> False)
           | Inl e \<Rightarrow> False)
      | _ \<Rightarrow> False)"

definition correct_keys_present :: "'a session_state_scheme \<Rightarrow> bool" where
  "correct_keys_present s = list_all correct_in_options (stored_questions s)"


section \<open>Example runs\<close>

text \<open>A library that answers every prompt with \<open>reply\<close> and decodes that text to
  \<open>decoded\<close>, as a test of the program would stub the two calls. Its arithmetic is
  exact: the only percentage the examples compute is 0, which no rounding
  changes.\<close>

definition answering :: "string \<Rightarrow> json option \<Rightarrow> library" where
  "answering reply decoded =
     \<lparr>generate_content = (\<lambda>prompt. Inr reply),
      json_loads = (\<lambda>text. if text = reply then decoded else None),
      binary64 = id\<rparr>"

text \<open>The widgets of a run in which nothing is clicked or chosen.\<close>

definition untouched :: widgets where
  "untouched =
     \<lparr>text_content = ''The sun is a star.'', quiz_level = ''Easy'', num_questions = 5,
      generate_clicked = False, radio = (\<lambda>i. None), submitted = False,
      reset_clicked = False\<rparr>"

text \<open>The example question of lines 46 to 59 and a reply holding it.\<close>

definition sample_question :: json where
  "sample_question =
     JDict [(''mcq'', JStr ''Sample question''),
            (''options'', JDict [(''a'', JStr ''Option 1''), (''b'', JStr ''Option 2''),
                               (''c'', JStr ''Option 3''), (''d'', JStr ''Option 4'')]),
            (''correct'', JStr ''a'')]"

definition RESPONSE_JSON :: json where
  "RESPONSE_JSON = JDict [(''mcqs'', JList [sample_question])]"

definition sample_library :: library where
  "sample_library = answering RESPONSE_JSON_dumps (Some RESPONSE_JSON)"

text \<open>A reply whose question names an answer key that its options do not have:
  \<^verbatim>\<open>{"mcqs": [{"mcq": "q", "options": {"a": "x"}, "correct": "z"}]}\<close>.\<close>

definition stray_key_reply :: string where
  \<open>stray_key_reply = ''{"mcqs": [{"mcq": "q", "options": {"a": "x"}, "correct": "z"}]}''\<close>

definition stray_key_question :: json where
  "stray_key_question =
     JDict [(''mcq'', JStr ''q''), (''options'', JDict [(''a'', JStr ''x'')]),
            (''correct'', JStr ''z'')]"

definition stray_key_library :: library where
  "stray_key_library =
     answering stray_key_reply (Some (JDict [(''mcqs'', JList [stray_key_question])]))"




text \<open>A radio that holds \<open>option\<close> for the first question and nothing for the
  others.\<close>

definition choose_first :: "string \<Rightarrow> nat \<Rightarrow> string option" where
  "choose_first option i = (if i = 0 then Some option else None)"

text \<open>Sessions reached by a click on the generate button in a new session, one
  for each library above, and the session after the second option of the example
  question was chosen.\<close>

definition generated_sample :: session_state where
  "generated_sample =
     snd (main sample_library (untouched\<lparr>generate_clicked := True\<rparr>) new_session)"

definition answered_sample :: session_state where
  "answered_sample =
     snd (main sample_library (untouched\<lparr>radio := choose_first ''b: Option 2''\<rparr>)
            generated_sample)"

definition generated_empty :: session_state where
  "generated_empty =
     snd (main (answering ''not json'' None) (untouched\<lparr>generate_clicked := True\<rparr>)
            new_session)"

definition generated_stray :: session_state where
  "generated_stray =
     snd (main stray_key_library (untouched\<lparr>generate_clicked := True\<rparr>) new_session)"




section \<open>Properties\<close>

subsection \<open>Reading the decoded values\<close>

lemma len_iterate: "len v = map_sum id length (iterate v)"
  by (cases v) simp_all

lemma str_int_5: "str_int 5 = ''5''"
  by code_simp

lemma sublist_skip: "sublist xs ys \<Longrightarrow> sublist xs (zs @ ys)"
  unfolding sublist_def by (metis append.assoc)

subsection \<open>The prompt\<close>

text \<open>
  Claim C8. For any text, any difficulty label and a count from 1 to 20, the prompt
  is not empty and contains the label and the decimal digits of the count.
\<close>

theorem prompt_contains_level_and_count:
  assumes "1 \<le> n" and "n \<le> 20"
  shows "PROMPT_TEMPLATE body level n \<noteq> []
       \<and> sublist level (PROMPT_TEMPLATE body level n)
       \<and> sublist (str_int n) (PROMPT_TEMPLATE body level n)"
proof (intro conjI)
  show "PROMPT_TEMPLATE body level n \<noteq> []"
    unfolding PROMPT_TEMPLATE_def by simp
  show "sublist (str_int n) (PROMPT_TEMPLATE body level n)"
    unfolding PROMPT_TEMPLATE_def
    by (rule sublist_skip, rule sublist_skip, rule sublist_append_rightI)
  show "sublist level (PROMPT_TEMPLATE body level n)"
    unfolding PROMPT_TEMPLATE_def
    by (rule sublist_skip, rule sublist_skip, rule sublist_skip, rule sublist_skip,
        rule sublist_skip, rule sublist_append_rightI)
qed

theorem prompt_contains_level_and_count_witness:
  "(1::int) \<le> 5 \<and> (5::int) \<le> 20
   \<and> PROMPT_TEMPLATE ''The sun is a star.'' ''Easy'' 5 \<noteq> []
   \<and> sublist ''Easy'' (PROMPT_TEMPLATE ''The sun is a star.'' ''Easy'' 5)
   \<and> sublist ''5'' (PROMPT_TEMPLATE ''The sun is a star.'' ''Easy'' 5)"
  using prompt_contains_level_and_count
          [where n = 5 and body = "''The sun is a star.''" and level = "''Easy''"]
  by (simp add: str_int_5)

subsection \<open>The feedback\<close>

text \<open>
  Claim C6. A percentage of exactly 100 gets the top message; from 80 up to but not
  100 the second; from 50 up to but not 80 the third; below 50 the last.
\<close>

theorem feedback_tiers:
  "(percentage = 100 \<longrightarrow> performance_feedback percentage = Perfect_Score)
   \<and> (80 \<le> percentage \<and> percentage < 100 \<longrightarrow> performance_feedback percentage = Great_job)
   \<and> (50 \<le> percentage \<and> percentage < 80 \<longrightarrow> performance_feedback percentage = Good_effort)
   \<and> (percentage < 50 \<longrightarrow> performance_feedback percentage = Dont_worry)"
  by (simp add: performance_feedback_def)

theorem feedback_tiers_witness:
  "performance_feedback 100 = Perfect_Score
   \<and> performance_feedback 80 = Great_job \<and> performance_feedback (399 / 4) = Great_job
   \<and> performance_feedback 50 = Good_effort \<and> performance_feedback (319 / 4) = Good_effort
   \<and> performance_feedback (199 / 4) = Dont_worry \<and> performance_feedback 0 = Dont_worry"
  using feedback_tiers [of 100] feedback_tiers [of 80] feedback_tiers [of "399 / 4"]
    feedback_tiers [of 50] feedback_tiers [of "319 / 4"] feedback_tiers [of "199 / 4"]
    feedback_tiers [of 0]
  by simp

subsection \<open>The response\<close>

text \<open>
  Claim C7. When the response decodes to an object whose \<^verbatim>\<open>mcqs\<close> entry is a list of
  N questions, \<open>fetch_questions\<close> returns that list: the same N values, each with
  its \<^verbatim>\<open>mcq\<close>, \<^verbatim>\<open>options\<close> and \<^verbatim>\<open>correct\<close> entries as decoded.
\<close>

theorem fetch_returns_the_mcqs:
  assumes "generate_content lib (PROMPT_TEMPLATE body level n) = Inr response_text"
    and "json_loads lib response_text = Some (JDict kvs)"
    and "map_of kvs ''mcqs'' = Some (JList qs)"
  shows "fetch_questions lib body level n = Inr (JList qs)"
  using assms by (simp add: fetch_questions_def extract_mcqs_def)

theorem fetch_returns_the_mcqs_witness:
  "generate_content sample_library (PROMPT_TEMPLATE ''The sun is a star.'' ''Easy'' 1)
     = Inr RESPONSE_JSON_dumps
   \<and> json_loads sample_library RESPONSE_JSON_dumps
     = Some (JDict [(''mcqs'', JList [sample_question])])
   \<and> map_of [(''mcqs'', JList [sample_question])] ''mcqs'' = Some (JList [sample_question])
   \<and> fetch_questions sample_library ''The sun is a star.'' ''Easy'' 1
     = Inr (JList [sample_question])"
  using fetch_returns_the_mcqs
          [of sample_library "''The sun is a star.''" "''Easy''" 1 RESPONSE_JSON_dumps
              "[(''mcqs'', JList [sample_question])]" "[sample_question]"]
  by (simp add: sample_library_def answering_def RESPONSE_JSON_def)

text \<open>
  Claim C2, as amended. When the response text is not JSON, so that the decoder
  raises its exception, \<open>fetch_questions\<close> returns the empty list and raises
  nothing. (A text that decodes to something other than an object is not covered:
  see the counterexample.)
\<close>

theorem fetch_empty_on_decode_error:
  assumes "generate_content lib (PROMPT_TEMPLATE body level n) = Inr response_text"
    and "json_loads lib response_text = None"
  shows "fetch_questions lib body level n = Inr (JList [])"
  using assms by (simp add: fetch_questions_def extract_mcqs_def)

theorem fetch_empty_on_decode_error_witness:
  "generate_content (answering ''not json'' None)
       (PROMPT_TEMPLATE ''The sun is a star.'' ''Easy'' 5) = Inr ''not json''
   \<and> json_loads (answering ''not json'' None) ''not json'' = None
   \<and> fetch_questions (answering ''not json'' None) ''The sun is a star.'' ''Easy'' 5
     = Inr (JList [])"
  using fetch_empty_on_decode_error
          [of "answering ''not json'' None" "''The sun is a star.''" "''Easy''" 5
              "''not json''"]
  by (simp add: answering_def)

text \<open>
  Claim C2 as stated fails: the response \<^verbatim>\<open>[]\<close> is JSON, decodes to a list, and the
  extraction \<^verbatim>\<open>.get("mcqs", [])\<close> raises \<^verbatim>\<open>AttributeError\<close>, which the handler does not
  catch.
\<close>

theorem fetch_raises_on_non_object:
  "fetch_questions (answering ''[]'' (Some (JList []))) ''The sun is a star.'' ''Easy'' 5
     = Inl AttributeError"
  by (simp add: fetch_questions_def extract_mcqs_def answering_def)

text \<open>
  Claim C9. When the response decodes to an object without the key \<^verbatim>\<open>mcqs\<close>,
  \<open>fetch_questions\<close> returns the empty list, which is also what it returns for the
  same library with a decoder that fails on every text.
\<close>

theorem fetch_empty_on_missing_key:
  assumes "generate_content lib (PROMPT_TEMPLATE body level n) = Inr response_text"
    and "json_loads lib response_text = Some (JDict kvs)"
    and "map_of kvs ''mcqs'' = None"
  shows "fetch_questions lib body level n = Inr (JList [])
       \<and> fetch_questions lib body level n
           = fetch_questions (lib\<lparr>json_loads := (\<lambda>t. None)\<rparr>) body level n"
  using assms by (simp add: fetch_questions_def extract_mcqs_def)

theorem fetch_empty_on_missing_key_witness:
  "generate_content (answering ''{}'' (Some (JDict [])))
       (PROMPT_TEMPLATE ''The sun is a star.'' ''Easy'' 5) = Inr ''{}''
   \<and> json_loads (answering ''{}'' (Some (JDict []))) ''{}'' = Some (JDict [])
   \<and> map_of ([] :: (string \<times> json) list) ''mcqs'' = None
   \<and> fetch_questions (answering ''{}'' (Some (JDict []))) ''The sun is a star.'' ''Easy'' 5
     = Inr (JList [])"
  using fetch_empty_on_missing_key
          [of "answering ''{}'' (Some (JDict []))" "''The sun is a star.''" "''Easy''" 5
              "''{}''" "[]"]
  by (simp add: answering_def)

subsection \<open>Runs of the examples\<close>

lemma generated_with_defaults [simp]: "generated (with_defaults s) = generated s"
  by (simp add: with_defaults_def generated_def)

lemma selections_with_defaults [simp]: "selections (with_defaults s) = selections s"
  by (simp add: with_defaults_def selections_def)

lemma questions_with_defaults [simp]: "questions (with_defaults s) = questions s"
  by (simp add: with_defaults_def)

lemma stored_with_defaults [simp]: "stored_questions (with_defaults s) = stored_questions s"
  by (simp add: stored_questions_def)

lemmas run_simps =
  main_def quiz_page_def with_defaults_def generated_def selections_def Let_def
  fetch_questions_def extract_mcqs_def answering_def untouched_def new_session_def
  show_results_def score_question_def score_percentage_def choose_first_def

lemma generated_sample_eq:
  "generated_sample =
     \<lparr>questions = Some (JList [sample_question]), quiz_generated = Some True,
      selected_options = Some Map.empty\<rparr>"
  by (simp add: generated_sample_def sample_library_def RESPONSE_JSON_def run_simps)

lemma answered_sample_eq:
  "answered_sample =
     \<lparr>questions = Some (JList [sample_question]), quiz_generated = Some True,
      selected_options = Some [0 \<mapsto> ''b'']\<rparr>"
  by (simp add: answered_sample_def generated_sample_eq sample_question_def run_simps)

lemma generated_empty_eq:
  "generated_empty =
     \<lparr>questions = Some (JList []), quiz_generated = Some True,
      selected_options = Some Map.empty\<rparr>"
  by (simp add: generated_empty_def run_simps)

lemma generated_stray_eq:
  "generated_stray =
     \<lparr>questions = Some (JList [stray_key_question]), quiz_generated = Some True,
      selected_options = Some Map.empty\<rparr>"
  by (simp add: generated_stray_def stray_key_library_def run_simps)


lemma reachable_generated_sample: "reachable generated_sample"
  unfolding generated_sample_def by (rule reachable.run [OF reachable.start])

lemma reachable_answered_sample: "reachable answered_sample"
  unfolding answered_sample_def by (rule reachable.run [OF reachable_generated_sample])

lemma reachable_generated_stray: "reachable generated_stray"
  unfolding generated_stray_def by (rule reachable.run [OF reachable.start])

subsection \<open>Generating a quiz\<close>



subsection \<open>Submitting an empty quiz\<close>

text \<open>
  Claim C4. When the stored question list is empty and the form is submitted, the
  run ends in the \<^verbatim>\<open>ZeroDivisionError\<close> of the score percentage.
\<close>

theorem submit_empty_quiz_divides_by_zero:
  assumes "questions s = Some (JList [])" and "quiz_generated s = Some True"
    and "\<not> generate_clicked w" and "submitted w"
  shows "fst (main lib w s) = Raised ZeroDivisionError"
proof -
  have g: "generated s"
    using assms(2) by (simp add: generated_def)
  show ?thesis
    using assms(1,3,4) g
    by (simp add: main_def quiz_page_def Let_def show_results_def score_percentage_def)
qed

theorem submit_empty_quiz_divides_by_zero_witness:
  "questions generated_empty = Some (JList []) \<and> quiz_generated generated_empty = Some True
   \<and> \<not> generate_clicked (untouched\<lparr>submitted := True\<rparr>)
   \<and> submitted (untouched\<lparr>submitted := True\<rparr>)
   \<and> fst (main sample_library (untouched\<lparr>submitted := True\<rparr>) generated_empty)
     = Raised ZeroDivisionError"
  using submit_empty_quiz_divides_by_zero
          [of generated_empty "untouched\<lparr>submitted := True\<rparr>" sample_library]
  by (simp add: generated_empty_eq untouched_def)

subsection \<open>Resetting\<close>

text \<open>
  Claim C1, as amended. On the page of a generated quiz, a run that reaches the
  reset button when it is clicked sets \<^verbatim>\<open>quiz_generated\<close> to false and
  \<^verbatim>\<open>selected_options\<close> to the empty dict, and leaves \<^verbatim>\<open>questions\<close> as stored.
\<close>

theorem reset_clears_flag_and_selections:
  assumes "quiz_generated s = Some True" and "\<not> generate_clicked w" and "reset_clicked w"
    and "fst (main lib w s) = Rerun"
  shows "quiz_generated (snd (main lib w s)) = Some False
       \<and> selected_options (snd (main lib w s)) = Some Map.empty
       \<and> questions (snd (main lib w s)) = questions s"
proof -
  let ?s = "with_defaults s"
  have g: "generated s"
    using assms(1) by (simp add: generated_def)
  have page: "main lib w s = quiz_page lib w ?s"
    using assms(2) g by (simp add: main_def Let_def)
  have "snd (quiz_page lib w ?s) =
          ?s\<lparr>quiz_generated := Some False, selected_options := Some Map.empty\<rparr>"
    using assms(4) unfolding page
    by (auto simp add: quiz_page_def Let_def split: option.splits sum.splits if_splits)
  then show ?thesis
    unfolding page by (simp add: with_defaults_def)
qed

theorem reset_clears_flag_and_selections_witness:
  "quiz_generated answered_sample = Some True
   \<and> \<not> generate_clicked (untouched\<lparr>reset_clicked := True\<rparr>)
   \<and> reset_clicked (untouched\<lparr>reset_clicked := True\<rparr>)
   \<and> fst (main sample_library (untouched\<lparr>reset_clicked := True\<rparr>) answered_sample) = Rerun
   \<and> quiz_generated (snd (main sample_library (untouched\<lparr>reset_clicked := True\<rparr>)
                            answered_sample)) = Some False
   \<and> selected_options (snd (main sample_library (untouched\<lparr>reset_clicked := True\<rparr>)
                              answered_sample)) = Some Map.empty
   \<and> questions (snd (main sample_library (untouched\<lparr>reset_clicked := True\<rparr>)
                       answered_sample)) = Some (JList [sample_question])"
proof -
  have r: "fst (main sample_library (untouched\<lparr>reset_clicked := True\<rparr>) answered_sample)
             = Rerun"
    by (simp add: answered_sample_eq sample_question_def run_simps)
  show ?thesis
    using reset_clears_flag_and_selections
            [of answered_sample "untouched\<lparr>reset_clicked := True\<rparr>" sample_library] r
    by (simp add: answered_sample_eq untouched_def)
qed

text \<open>
  Claim C1 as stated fails: after the example quiz is generated and the reset
  button is clicked, \<^verbatim>\<open>questions\<close> still holds the example question.
\<close>

theorem reset_keeps_questions:
  "fst (main sample_library (untouched\<lparr>reset_clicked := True\<rparr>) generated_sample) = Rerun
   \<and> questions (snd (main sample_library (untouched\<lparr>reset_clicked := True\<rparr>)
                       generated_sample)) = Some (JList [sample_question])"
  by (simp add: generated_sample_eq sample_question_def run_simps)

subsection \<open>The invariant of the session\<close>

lemma render_form_dom:
  "dom sel \<subseteq> {j. j < i + length qs} \<Longrightarrow>
   dom (snd (render_form rd i qs sel)) \<subseteq> {j. j < i + length qs}"
proof (induction qs arbitrary: i sel)
  case Nil
  then show ?case by simp
next
  case (Cons q qs)
  have step: "dom sel' \<subseteq> {j. j < Suc i + length qs} \<Longrightarrow>
      dom (snd (render_form rd (Suc i) qs sel')) \<subseteq> {j. j < i + length (q # qs)}" for sel'
    using Cons.IH [of sel' "Suc i"] by simp
  from Cons.prems have base: "dom sel \<subseteq> {j. j < Suc i + length qs}" by simp
  then have upd: "dom (sel(i \<mapsto> v)) \<subseteq> {j. j < Suc i + length qs}" for v by auto
  show ?case
    using Cons.prems base upd step
    by (auto split: sum.splits option.splits simp del: fun_upd_apply)
qed

text \<open>The session a quiz page leaves is the one it found, or that one with the
  selections of the form, or the reset one.\<close>

lemma quiz_page_state:
  "snd (quiz_page lib w s) = s
   \<or> (\<exists>stored qs. questions s = Some stored \<and> iterate stored = Inr qs
        \<and> (snd (quiz_page lib w s) =
              s\<lparr>selected_options := Some (snd (render_form (radio w) 0 qs (selections s)))\<rparr>
            \<or> snd (quiz_page lib w s) =
              s\<lparr>quiz_generated := Some False, selected_options := Some Map.empty\<rparr>))"
  by (simp add: quiz_page_def Let_def split: option.split sum.split)

lemma quiz_page_keeps_range:
  assumes "selections_in_range s"
  shows "selections_in_range (snd (quiz_page lib w s))"
proof -
  consider (same) "snd (quiz_page lib w s) = s"
    | (form) stored qs where "questions s = Some stored" "iterate stored = Inr qs"
        "snd (quiz_page lib w s) =
           s\<lparr>selected_options := Some (snd (render_form (radio w) 0 qs (selections s)))\<rparr>"
    | (reset) "snd (quiz_page lib w s) =
           s\<lparr>quiz_generated := Some False, selected_options := Some Map.empty\<rparr>"
    using quiz_page_state [of lib w s] by blast
  then show ?thesis
  proof cases
    case same
    with assms show ?thesis by simp
  next
    case form
    from form(1,2) have st: "stored_questions s = qs"
      by (simp add: stored_questions_def)
    with assms have "dom (selections s) \<subseteq> {j. j < 0 + length qs}"
      by (simp add: selections_in_range_def)
    then have "dom (snd (render_form (radio w) 0 qs (selections s)))
                 \<subseteq> {j. j < 0 + length qs}"
      by (rule render_form_dom)
    with form st show ?thesis
      by (simp add: selections_in_range_def selections_def stored_questions_def)
  next
    case reset
    then show ?thesis by (simp add: selections_in_range_def selections_def)
  qed
qed

lemma main_keeps_range:
  assumes "selections_in_range s"
  shows "selections_in_range (snd (main lib w s))"
proof -
  have d: "selections_in_range (with_defaults s)"
    using assms by (simp add: selections_in_range_def)
  have g: "selections_in_range
      ((with_defaults s)\<lparr>questions := Some fetched, quiz_generated := Some True,
                         selected_options := Some Map.empty\<rparr>)" for fetched
    by (simp add: selections_in_range_def selections_def)
  show ?thesis
    using d g quiz_page_keeps_range [OF d, of lib w]
    by (simp add: main_def Let_def split: sum.split)
qed

text \<open>
  Claim C3, as amended. In every session the program can reach, the keys of
  \<^verbatim>\<open>selected_options\<close> are indices of the stored questions. (Nothing relates the
  \<^verbatim>\<open>correct\<close> entry of a stored question to its \<^verbatim>\<open>options\<close>: see the counterexample.)
\<close>

theorem selections_stay_in_range:
  "reachable s \<Longrightarrow> selections_in_range s"
proof (induction rule: reachable.induct)
  case start
  show ?case
    by (simp add: selections_in_range_def selections_def new_session_def)
next
  case (run s lib w)
  then show ?case by (simp add: main_keeps_range)
qed

theorem selections_stay_in_range_witness:
  "reachable answered_sample \<and> selections_in_range answered_sample
   \<and> selections answered_sample 0 = Some ''b''"
  using selections_stay_in_range [of answered_sample] reachable_answered_sample
  by (simp add: answered_sample_eq selections_def)

text \<open>
  Claim C3 as stated fails: a response whose question names the answer key \<^verbatim>\<open>z\<close>
  among the options \<^verbatim>\<open>a\<close> is stored as it is, and submitting that quiz ends in the
  \<^verbatim>\<open>KeyError\<close> of the lookup \<^verbatim>\<open>options[correct]\<close>.
\<close>

theorem stray_correct_key_is_stored:
  "reachable generated_stray \<and> \<not> correct_keys_present generated_stray
   \<and> fst (main stray_key_library (untouched\<lparr>submitted := True\<rparr>) generated_stray)
     = Raised KeyError"
  using reachable_generated_stray
  by (simp add: generated_stray_eq correct_keys_present_def stored_questions_def
        correct_in_options_def stray_key_question_def run_simps)

subsection \<open>Scoring\<close>








end
